theory Spec2Isabelle
  imports Complex_Main
begin

section \<open>JavaScript values\<close>

text \<open>
  The settings components pass JavaScript values around untyped: a setting may hold a
  boolean, a number, a string, \<open>undefined\<close> or \<open>null\<close>, or a reference to an object
  or array (the list of models to test). Finite numbers are rationals, \<open>NaN\<close> is a value
  of its own, and an object is known by its reference only.
\<close>

datatype jsval =
    JUndefined
  | JNull
  | JBool bool
  | JNum rat
  | JNaN
  | JStr string
  | JObj nat

text \<open>
  The operator \<open>===\<close>: no conversion, values of different types are never equal,
  \<open>NaN\<close> is not equal to itself, objects are equal when they are the same reference.
\<close>

fun strict_eq :: "jsval \<Rightarrow> jsval \<Rightarrow> bool" where
  "strict_eq JUndefined JUndefined = True"
| "strict_eq JNull JNull = True"
| "strict_eq (JBool a) (JBool b) = (a = b)"
| "strict_eq (JNum a) (JNum b) = (a = b)"
| "strict_eq (JStr a) (JStr b) = (a = b)"
| "strict_eq (JObj a) (JObj b) = (a = b)"
| "strict_eq _ _ = False"

text \<open>
  The conversion to boolean that \<open>if (toBool)\<close> applies: \<open>undefined\<close>, \<open>null\<close>,
  \<open>false\<close>, \<open>0\<close>, \<open>NaN\<close> and the empty string are falsy, every other value is truthy.
\<close>

fun truthy :: "jsval \<Rightarrow> bool" where
  "truthy JUndefined = False"
| "truthy JNull = False"
| "truthy (JBool b) = b"
| "truthy (JNum n) = (n \<noteq> 0)"
| "truthy JNaN = False"
| "truthy (JStr s) = (s \<noteq> [])"
| "truthy (JObj r) = True"

section \<open>The display labels\<close>

text \<open>
  The \<open>languageText\<close> property of a settings component: of the localized texts, the
  components read the two labels of a boolean setting.
\<close>

record languageText =
  selectTrue :: string
  selectFalse :: string

text \<open>\<open>itemsTrueFalse\<close>, the items of the select boxes, the same in the three components.\<close>

definition itemsTrueFalse :: "languageText \<Rightarrow> string list" where
  "itemsTrueFalse languageText = [selectTrue languageText, selectFalse languageText]"

section \<open>The label conversion\<close>

text \<open>
  \<open>convertTrueFalse(value, toBool)\<close> is written out in each of the three components; a
  call with one argument leaves \<open>toBool\<close> \<open>undefined\<close>. Each copy is embedded from its
  own file.
\<close>

text \<open>DataSetting.vue, lines 86 to 96.\<close>

definition convertTrueFalse_Data :: "languageText \<Rightarrow> jsval \<Rightarrow> jsval \<Rightarrow> jsval" where
  "convertTrueFalse_Data languageText val toBool =
     (if truthy toBool then
        JBool (strict_eq val (JStr (selectTrue languageText)))
      else
        (if strict_eq val (JBool True) then
           JStr (selectTrue languageText)
         else
           JStr (selectFalse languageText)))"

text \<open>ProfileSetting.vue, lines 115 to 125.\<close>

definition convertTrueFalse_Profile :: "languageText \<Rightarrow> jsval \<Rightarrow> jsval \<Rightarrow> jsval" where
  "convertTrueFalse_Profile languageText val toBool =
     (if truthy toBool then
        JBool (strict_eq val (JStr (selectTrue languageText)))
      else
        (if strict_eq val (JBool True) then
           JStr (selectTrue languageText)
         else
           JStr (selectFalse languageText)))"

text \<open>The AdvancedSetting component, lines 176 to 186.\<close>

definition convertTrueFalse_Advanced :: "languageText \<Rightarrow> jsval \<Rightarrow> jsval \<Rightarrow> jsval" where
  "convertTrueFalse_Advanced languageText val toBool =
     (if truthy toBool then
        JBool (strict_eq val (JStr (selectTrue languageText)))
      else
        (if strict_eq val (JBool True) then
           JStr (selectTrue languageText)
         else
           JStr (selectFalse languageText)))"

section \<open>The settings store\<close>

text \<open>
  Modelled from the spec: the settings store, whose module is not among the source
  files. It is a mapping keyed by (group name, setting key) to a value of mixed type; a
  pair that was never set has no entry.
\<close>

type_synonym store = "string \<times> string \<rightharpoonup> jsval"

text \<open>
  Modelled from the spec: \<open>getSettingsValue\<close>, the store's getter, keyed by
  \<open>{name, setting}\<close>. It looks up the current value of a setting, has no side effect
  and fails softly: an absent pair reads as \<open>undefined\<close>. It returns the value read and
  the store as the read leaves it.
\<close>

definition getSettingsValue :: "string \<Rightarrow> string \<Rightarrow> store \<Rightarrow> jsval \<times> store" where
  "getSettingsValue name setting st =
     (case st (name, setting) of None \<Rightarrow> (JUndefined, st) | Some v \<Rightarrow> (v, st))"

text \<open>
  Modelled from the spec: \<open>setSettingsValue\<close>, the store's mutation, keyed by
  \<open>{name, setting, value}\<close>. It writes the value into the store at that pair, with no
  validation.
\<close>

definition setSettingsValue :: "string \<Rightarrow> string \<Rightarrow> jsval \<Rightarrow> store \<Rightarrow> store" where
  "setSettingsValue name setting val st = st((name, setting) \<mapsto> val)"

section \<open>The computed properties of the components\<close>

text \<open>
  Each form field is bound to a computed property with a getter and a setter. A getter
  takes the component's properties and the store and returns the value it shows with
  the store after the read; a setter returns the store after the write.
\<close>

text \<open>DataSetting.vue, \<open>useMedian\<close>, lines 51 to 65.\<close>

definition useMedian_get :: "languageText \<Rightarrow> string \<Rightarrow> store \<Rightarrow> jsval \<times> store" where
  "useMedian_get languageText settingsName st =
     (case getSettingsValue settingsName ''use_median'' st of
        (v, st') \<Rightarrow> (convertTrueFalse_Data languageText v JUndefined, st'))"

definition useMedian_set :: "languageText \<Rightarrow> string \<Rightarrow> jsval \<Rightarrow> store \<Rightarrow> store" where
  "useMedian_set languageText settingsName val st =
     setSettingsValue settingsName ''use_median''
       (convertTrueFalse_Data languageText val (JBool True)) st"

text \<open>DataSetting.vue, \<open>dataTransformation\<close>, lines 66 to 80.\<close>

definition dataTransformation_get :: "string \<Rightarrow> store \<Rightarrow> jsval \<times> store" where
  "dataTransformation_get settingsName st = getSettingsValue settingsName ''data_transformation'' st"

definition dataTransformation_set :: "string \<Rightarrow> jsval \<Rightarrow> store \<Rightarrow> store" where
  "dataTransformation_set settingsName val st = setSettingsValue settingsName ''data_transformation'' val st"

text \<open>ProfileSetting.vue, \<open>toleranceLimit\<close>, lines 65 to 79.\<close>

definition toleranceLimit_get :: "string \<Rightarrow> store \<Rightarrow> jsval \<times> store" where
  "toleranceLimit_get settingsName st = getSettingsValue settingsName ''tolerance_limit'' st"

definition toleranceLimit_set :: "string \<Rightarrow> jsval \<Rightarrow> store \<Rightarrow> store" where
  "toleranceLimit_set settingsName val st = setSettingsValue settingsName ''tolerance_limit'' val st"

text \<open>ProfileSetting.vue, \<open>acceptanceLimit\<close>, lines 80 to 94.\<close>

definition acceptanceLimit_get :: "string \<Rightarrow> store \<Rightarrow> jsval \<times> store" where
  "acceptanceLimit_get settingsName st = getSettingsValue settingsName ''acceptance_limit'' st"

definition acceptanceLimit_set :: "string \<Rightarrow> jsval \<Rightarrow> store \<Rightarrow> store" where
  "acceptanceLimit_set settingsName val st = setSettingsValue settingsName ''acceptance_limit'' val st"

text \<open>ProfileSetting.vue, \<open>acceptanceAbsolute\<close>, lines 95 to 109.\<close>

definition acceptanceAbsolute_get :: "languageText \<Rightarrow> string \<Rightarrow> store \<Rightarrow> jsval \<times> store" where
  "acceptanceAbsolute_get languageText settingsName st =
     (case getSettingsValue settingsName ''acceptance_absolute'' st of
        (v, st') \<Rightarrow> (convertTrueFalse_Profile languageText v JUndefined, st'))"

definition acceptanceAbsolute_set :: "languageText \<Rightarrow> string \<Rightarrow> jsval \<Rightarrow> store \<Rightarrow> store" where
  "acceptanceAbsolute_set languageText settingsName val st =
     setSettingsValue settingsName ''acceptance_absolute''
       (convertTrueFalse_Profile languageText val (JBool True)) st"

text \<open>The AdvancedSetting component, \<open>correctionAllow\<close>, lines 51 to 65.\<close>

definition correctionAllow_get :: "languageText \<Rightarrow> string \<Rightarrow> store \<Rightarrow> jsval \<times> store" where
  "correctionAllow_get languageText settingsName st =
     (case getSettingsValue settingsName ''correction_allow'' st of
        (v, st') \<Rightarrow> (convertTrueFalse_Advanced languageText v JUndefined, st'))"

definition correctionAllow_set :: "languageText \<Rightarrow> string \<Rightarrow> jsval \<Rightarrow> store \<Rightarrow> store" where
  "correctionAllow_set languageText settingsName val st =
     setSettingsValue settingsName ''correction_allow''
       (convertTrueFalse_Advanced languageText val (JBool True)) st"

text \<open>The AdvancedSetting component, \<open>correctionForcedValue\<close>, lines 66 to 80.\<close>

definition correctionForcedValue_get :: "string \<Rightarrow> store \<Rightarrow> jsval \<times> store" where
  "correctionForcedValue_get settingsName st = getSettingsValue settingsName ''correction_forced_value'' st"

definition correctionForcedValue_set :: "string \<Rightarrow> jsval \<Rightarrow> store \<Rightarrow> store" where
  "correctionForcedValue_set settingsName val st = setSettingsValue settingsName ''correction_forced_value'' val st"

text \<open>The AdvancedSetting component, \<open>correctionRoundTo\<close>, lines 81 to 95.\<close>

definition correctionRoundTo_get :: "string \<Rightarrow> store \<Rightarrow> jsval \<times> store" where
  "correctionRoundTo_get settingsName st = getSettingsValue settingsName ''correction_round_to'' st"

definition correctionRoundTo_set :: "string \<Rightarrow> jsval \<Rightarrow> store \<Rightarrow> store" where
  "correctionRoundTo_set settingsName val st = setSettingsValue settingsName ''correction_round_to'' val st"

text \<open>The AdvancedSetting component, \<open>correctionThreshold\<close>, lines 96 to 110.\<close>

definition correctionThreshold_get :: "string \<Rightarrow> store \<Rightarrow> jsval \<times> store" where
  "correctionThreshold_get settingsName st = getSettingsValue settingsName ''correction_threshold'' st"

definition correctionThreshold_set :: "string \<Rightarrow> jsval \<Rightarrow> store \<Rightarrow> store" where
  "correctionThreshold_set settingsName val st = setSettingsValue settingsName ''correction_threshold'' val st"

text \<open>The AdvancedSetting component, \<open>rollingData\<close>, lines 111 to 125.\<close>

definition rollingData_get :: "string \<Rightarrow> store \<Rightarrow> jsval \<times> store" where
  "rollingData_get settingsName st = getSettingsValue settingsName ''rolling_data'' st"

definition rollingData_set :: "string \<Rightarrow> jsval \<Rightarrow> store \<Rightarrow> store" where
  "rollingData_set settingsName val st = setSettingsValue settingsName ''rolling_data'' val st"

text \<open>The AdvancedSetting component, \<open>rollingLimit\<close>, lines 126 to 140.\<close>

definition rollingLimit_get :: "string \<Rightarrow> store \<Rightarrow> jsval \<times> store" where
  "rollingLimit_get settingsName st = getSettingsValue settingsName ''rollingLimit'' st"

definition rollingLimit_set :: "string \<Rightarrow> jsval \<Rightarrow> store \<Rightarrow> store" where
  "rollingLimit_set settingsName val st = setSettingsValue settingsName ''rollingLimit'' val st"

text \<open>The AdvancedSetting component, \<open>significantFigure\<close>, lines 141 to 155.\<close>

definition significantFigure_get :: "string \<Rightarrow> store \<Rightarrow> jsval \<times> store" where
  "significantFigure_get settingsName st = getSettingsValue settingsName ''significant_figure'' st"

definition significantFigure_set :: "string \<Rightarrow> jsval \<Rightarrow> store \<Rightarrow> store" where
  "significantFigure_set settingsName val st = setSettingsValue settingsName ''significant_figure'' val st"

text \<open>The AdvancedSetting component, \<open>modelToTest\<close>, lines 156 to 170.\<close>

definition modelToTest_get :: "string \<Rightarrow> store \<Rightarrow> jsval \<times> store" where
  "modelToTest_get settingsName st = getSettingsValue settingsName ''model_to_test'' st"

definition modelToTest_set :: "string \<Rightarrow> jsval \<Rightarrow> store \<Rightarrow> store" where
  "modelToTest_set settingsName val st = setSettingsValue settingsName ''model_to_test'' val st"

section \<open>Form fields and sequences of writes\<close>

text \<open>
  The thirteen form fields of the three components, the setting each one is bound to,
  and which of them are shown through the label conversion.
\<close>

datatype field =
    UseMedian
  | DataTransformation
  | ToleranceLimit
  | AcceptanceLimit
  | AcceptanceAbsolute
  | CorrectionAllow
  | CorrectionForcedValue
  | CorrectionRoundTo
  | CorrectionThreshold
  | RollingData
  | RollingLimit
  | SignificantFigure
  | ModelToTest

fun setting_of :: "field \<Rightarrow> string" where
  "setting_of UseMedian = ''use_median''"
| "setting_of DataTransformation = ''data_transformation''"
| "setting_of ToleranceLimit = ''tolerance_limit''"
| "setting_of AcceptanceLimit = ''acceptance_limit''"
| "setting_of AcceptanceAbsolute = ''acceptance_absolute''"
| "setting_of CorrectionAllow = ''correction_allow''"
| "setting_of CorrectionForcedValue = ''correction_forced_value''"
| "setting_of CorrectionRoundTo = ''correction_round_to''"
| "setting_of CorrectionThreshold = ''correction_threshold''"
| "setting_of RollingData = ''rolling_data''"
| "setting_of RollingLimit = ''rollingLimit''"
| "setting_of SignificantFigure = ''significant_figure''"
| "setting_of ModelToTest = ''model_to_test''"

fun boolean_backed :: "field \<Rightarrow> bool" where
  "boolean_backed UseMedian = True"
| "boolean_backed AcceptanceAbsolute = True"
| "boolean_backed CorrectionAllow = True"
| "boolean_backed _ = False"

definition boolean_settings :: "string list" where
  "boolean_settings = [''use_median'', ''acceptance_absolute'', ''correction_allow'']"

text \<open>Reading a field runs its getter, writing it runs its setter.\<close>

fun field_get :: "languageText \<Rightarrow> string \<Rightarrow> field \<Rightarrow> store \<Rightarrow> jsval \<times> store" where
  "field_get lt n UseMedian st = useMedian_get lt n st"
| "field_get lt n DataTransformation st = dataTransformation_get n st"
| "field_get lt n ToleranceLimit st = toleranceLimit_get n st"
| "field_get lt n AcceptanceLimit st = acceptanceLimit_get n st"
| "field_get lt n AcceptanceAbsolute st = acceptanceAbsolute_get lt n st"
| "field_get lt n CorrectionAllow st = correctionAllow_get lt n st"
| "field_get lt n CorrectionForcedValue st = correctionForcedValue_get n st"
| "field_get lt n CorrectionRoundTo st = correctionRoundTo_get n st"
| "field_get lt n CorrectionThreshold st = correctionThreshold_get n st"
| "field_get lt n RollingData st = rollingData_get n st"
| "field_get lt n RollingLimit st = rollingLimit_get n st"
| "field_get lt n SignificantFigure st = significantFigure_get n st"
| "field_get lt n ModelToTest st = modelToTest_get n st"

fun field_set :: "languageText \<Rightarrow> string \<Rightarrow> field \<Rightarrow> jsval \<Rightarrow> store \<Rightarrow> store" where
  "field_set lt n UseMedian v st = useMedian_set lt n v st"
| "field_set lt n DataTransformation v st = dataTransformation_set n v st"
| "field_set lt n ToleranceLimit v st = toleranceLimit_set n v st"
| "field_set lt n AcceptanceLimit v st = acceptanceLimit_set n v st"
| "field_set lt n AcceptanceAbsolute v st = acceptanceAbsolute_set lt n v st"
| "field_set lt n CorrectionAllow v st = correctionAllow_set lt n v st"
| "field_set lt n CorrectionForcedValue v st = correctionForcedValue_set n v st"
| "field_set lt n CorrectionRoundTo v st = correctionRoundTo_set n v st"
| "field_set lt n CorrectionThreshold v st = correctionThreshold_set n v st"
| "field_set lt n RollingData v st = rollingData_set n v st"
| "field_set lt n RollingLimit v st = rollingLimit_set n v st"
| "field_set lt n SignificantFigure v st = significantFigure_set n v st"
| "field_set lt n ModelToTest v st = modelToTest_set n v st"

text \<open>
  A sequence of writes made through the form: each names the component instance (its
  labels and its settings group), the field and the incoming value.
\<close>

fun field_sets :: "(languageText \<times> string \<times> field \<times> jsval) list \<Rightarrow> store \<Rightarrow> store" where
  "field_sets [] st = st"
| "field_sets ((lt, n, f, v) # es) st = field_sets es (field_set lt n f v st)"

text \<open>Whether a store entry is present and holds a boolean.\<close>

fun holds_bool :: "jsval option \<Rightarrow> bool" where
  "holds_bool (Some (JBool b)) = True"
| "holds_bool _ = False"

section \<open>Strict equality against a string and against \<open>true\<close>\<close>

lemma strict_eq_JStr: "strict_eq v (JStr s) = (v = JStr s)"
  by (cases v) simp_all

lemma strict_eq_JBool: "strict_eq v (JBool b) = (v = JBool b)"
  by (cases v) simp_all

lemmas convertTrueFalse_defs =
  convertTrueFalse_Data_def convertTrueFalse_Profile_def convertTrueFalse_Advanced_def

section \<open>The accessors in terms of the store\<close>

lemmas getter_defs =
  useMedian_get_def dataTransformation_get_def toleranceLimit_get_def acceptanceLimit_get_def
  acceptanceAbsolute_get_def correctionAllow_get_def correctionForcedValue_get_def
  correctionRoundTo_get_def correctionThreshold_get_def rollingData_get_def rollingLimit_get_def
  significantFigure_get_def modelToTest_get_def

lemmas setter_defs =
  useMedian_set_def dataTransformation_set_def toleranceLimit_set_def acceptanceLimit_set_def
  acceptanceAbsolute_set_def correctionAllow_set_def correctionForcedValue_set_def
  correctionRoundTo_set_def correctionThreshold_set_def rollingData_set_def rollingLimit_set_def
  significantFigure_set_def modelToTest_set_def

lemma getSettingsValue_fst:
  "fst (getSettingsValue g k st) = (case st (g, k) of None \<Rightarrow> JUndefined | Some v \<Rightarrow> v)"
  by (simp add: getSettingsValue_def split: option.splits)

lemma getSettingsValue_snd: "snd (getSettingsValue g k st) = st"
  by (simp add: getSettingsValue_def split: option.splits)

text \<open>
  Every getter reads the setting \<open>setting_of\<close> names for its field, and the three
  boolean-backed ones show it through the label conversion; every setter writes that
  setting, the three boolean-backed ones after converting the incoming value.
\<close>

lemma field_get_fst:
  "fst (field_get lt n f st) =
     (if boolean_backed f
      then convertTrueFalse_Data lt (fst (getSettingsValue n (setting_of f) st)) JUndefined
      else fst (getSettingsValue n (setting_of f) st))"
  by (cases f) (simp_all add: getter_defs convertTrueFalse_defs case_prod_beta)

lemma field_get_snd: "snd (field_get lt n f st) = st"
  by (cases f) (simp_all add: getter_defs case_prod_beta getSettingsValue_snd)

lemma field_set_eq:
  "field_set lt n f v st =
     setSettingsValue n (setting_of f)
       (if boolean_backed f then JBool (strict_eq v (JStr (selectTrue lt))) else v) st"
  by (cases f) (simp_all add: setter_defs convertTrueFalse_defs)

lemma field_set_entry:
  assumes "k \<in> set boolean_settings"
  shows "field_set lt n f v st (g, k) = st (g, k) \<or> holds_bool (field_set lt n f v st (g, k))"
  using assms by (cases f) (auto simp: field_set_eq setSettingsValue_def boolean_settings_def)

section \<open>Properties of the label conversion\<close>

text \<open>
  C1, as the code has it. A boolean converted to its label and back is the same boolean
  when the two labels differ. (When they are the same string, the label of \<open>false\<close> is
  the "true" label and converts back to \<open>true\<close>.)
\<close>

theorem label_then_bool:
  assumes "selectTrue lt \<noteq> selectFalse lt"
  shows "convertTrueFalse_Data lt (convertTrueFalse_Data lt (JBool b) JUndefined) (JBool True) = JBool b
       \<and> convertTrueFalse_Profile lt (convertTrueFalse_Profile lt (JBool b) JUndefined) (JBool True) = JBool b
       \<and> convertTrueFalse_Advanced lt (convertTrueFalse_Advanced lt (JBool b) JUndefined) (JBool True) = JBool b"
  using assms by (cases b) (auto simp: convertTrueFalse_defs)

theorem label_then_bool_witness:
  "convertTrueFalse_Data \<lparr>selectTrue = ''Yes'', selectFalse = ''No''\<rparr>
     (convertTrueFalse_Data \<lparr>selectTrue = ''Yes'', selectFalse = ''No''\<rparr> (JBool False) JUndefined)
     (JBool True) = JBool False"
  using label_then_bool [of "\<lparr>selectTrue = ''Yes'', selectFalse = ''No''\<rparr>" False] by simp

text \<open>
  C1 as stated, for every pair of labels, fails when the two labels are the same
  string: with both labels \<open>Yes\<close>, \<open>false\<close> is shown as \<open>Yes\<close> and read back as \<open>true\<close>.
\<close>

theorem label_then_bool_same_labels:
  "convertTrueFalse_Data \<lparr>selectTrue = ''Yes'', selectFalse = ''Yes''\<rparr> (JBool False) JUndefined
     = JStr ''Yes''
   \<and> convertTrueFalse_Data \<lparr>selectTrue = ''Yes'', selectFalse = ''Yes''\<rparr>
       (convertTrueFalse_Data \<lparr>selectTrue = ''Yes'', selectFalse = ''Yes''\<rparr> (JBool False) JUndefined)
       (JBool True) = JBool True
   \<and> JBool True \<noteq> JBool False"
  by (simp add: convertTrueFalse_Data_def)

text \<open>
  C2. Converting to a boolean any value that is not the "true" label (another string,
  the empty string, or a value that is no string at all) gives \<open>false\<close>. The conversion
  has no failing branch.
\<close>

theorem not_true_label_is_false:
  assumes "v \<noteq> JStr (selectTrue lt)"
  shows "convertTrueFalse_Data lt v (JBool True) = JBool False"
  using assms by (simp add: convertTrueFalse_Data_def strict_eq_JStr)

theorem not_true_label_is_false_witness:
  "convertTrueFalse_Data \<lparr>selectTrue = ''Yes'', selectFalse = ''No''\<rparr> (JStr []) (JBool True)
     = JBool False
   \<and> convertTrueFalse_Data \<lparr>selectTrue = ''Yes'', selectFalse = ''No''\<rparr> (JStr ''yes'') (JBool True)
     = JBool False"
  using not_true_label_is_false [of "JStr []" "\<lparr>selectTrue = ''Yes'', selectFalse = ''No''\<rparr>"]
    not_true_label_is_false [of "JStr ''yes''" "\<lparr>selectTrue = ''Yes'', selectFalse = ''No''\<rparr>"]
  by simp

text \<open>
  C6, as the code has it. The conversion is a function of the two labels and its two
  arguments alone, and it maps in both directions. Towards a boolean, it returns a
  boolean for every value: \<open>true\<close> for the "true" label and \<open>false\<close> for anything
  else. Towards a label, it returns the "true" label for \<open>true\<close> and the "false" label
  for \<open>false\<close>. Each of the two labels, converted to a boolean and back, is the same
  label again, whatever the two labels are. The two directions are inverse to each other
  (a boolean converted to a label and back is the same boolean) when the two labels are
  different strings.
\<close>

theorem label_conversion_both_ways:
  "convertTrueFalse_Profile lt v (JBool True) = JBool (v = JStr (selectTrue lt))
   \<and> convertTrueFalse_Profile lt (JBool b) JUndefined
       = JStr (if b then selectTrue lt else selectFalse lt)
   \<and> (l = selectTrue lt \<or> l = selectFalse lt \<longrightarrow>
        convertTrueFalse_Profile lt (convertTrueFalse_Profile lt (JStr l) (JBool True)) JUndefined
          = JStr l)
   \<and> (selectTrue lt \<noteq> selectFalse lt \<longrightarrow>
        convertTrueFalse_Profile lt (convertTrueFalse_Profile lt (JBool b) JUndefined) (JBool True)
          = JBool b)
   \<and> convertTrueFalse_Advanced lt v (JBool True) = JBool (v = JStr (selectTrue lt))
   \<and> convertTrueFalse_Advanced lt (JBool b) JUndefined
       = JStr (if b then selectTrue lt else selectFalse lt)
   \<and> (l = selectTrue lt \<or> l = selectFalse lt \<longrightarrow>
        convertTrueFalse_Advanced lt (convertTrueFalse_Advanced lt (JStr l) (JBool True)) JUndefined
          = JStr l)
   \<and> (selectTrue lt \<noteq> selectFalse lt \<longrightarrow>
        convertTrueFalse_Advanced lt (convertTrueFalse_Advanced lt (JBool b) JUndefined) (JBool True)
          = JBool b)
   \<and> convertTrueFalse_Data lt v (JBool True) = JBool (v = JStr (selectTrue lt))
   \<and> convertTrueFalse_Data lt (JBool b) JUndefined
       = JStr (if b then selectTrue lt else selectFalse lt)
   \<and> (l = selectTrue lt \<or> l = selectFalse lt \<longrightarrow>
        convertTrueFalse_Data lt (convertTrueFalse_Data lt (JStr l) (JBool True)) JUndefined
          = JStr l)
   \<and> (selectTrue lt \<noteq> selectFalse lt \<longrightarrow>
        convertTrueFalse_Data lt (convertTrueFalse_Data lt (JBool b) JUndefined) (JBool True)
          = JBool b)"
  by (cases b) (auto simp: convertTrueFalse_defs strict_eq_JStr)

theorem label_conversion_both_ways_witness:
  "convertTrueFalse_Profile \<lparr>selectTrue = ''Yes'', selectFalse = ''No''\<rparr> (JStr ''No'') (JBool True) = JBool False
   \<and> convertTrueFalse_Profile \<lparr>selectTrue = ''Yes'', selectFalse = ''No''\<rparr> (JBool False) JUndefined = JStr ''No''
   \<and> convertTrueFalse_Profile \<lparr>selectTrue = ''Yes'', selectFalse = ''No''\<rparr>
        (convertTrueFalse_Profile \<lparr>selectTrue = ''Yes'', selectFalse = ''No''\<rparr> (JStr ''No'') (JBool True)) JUndefined = JStr ''No''
   \<and> convertTrueFalse_Profile \<lparr>selectTrue = ''Yes'', selectFalse = ''No''\<rparr>
        (convertTrueFalse_Profile \<lparr>selectTrue = ''Yes'', selectFalse = ''No''\<rparr> (JBool False) JUndefined) (JBool True) = JBool False"
  using label_conversion_both_ways [where lt = "\<lparr>selectTrue = ''Yes'', selectFalse = ''No''\<rparr>"
      and v = "JStr ''No''" and b = False and l = "''No''"]
  by simp

text \<open>
  C6 as stated, a mapping in both directions for every pair of labels, fails when the
  two labels are the same string: with both labels \<open>Oui\<close>, \<open>true\<close> and \<open>false\<close> are
  both shown as \<open>Oui\<close>, which is read back as \<open>true\<close>, so no conversion back from
  the label recovers \<open>false\<close>.
\<close>

theorem same_labels_not_inverse:
  "convertTrueFalse_Profile \<lparr>selectTrue = ''Oui'', selectFalse = ''Oui''\<rparr> (JBool True) JUndefined = JStr ''Oui''
   \<and> convertTrueFalse_Profile \<lparr>selectTrue = ''Oui'', selectFalse = ''Oui''\<rparr> (JBool False) JUndefined = JStr ''Oui''
   \<and> convertTrueFalse_Profile \<lparr>selectTrue = ''Oui'', selectFalse = ''Oui''\<rparr> (JStr ''Oui'') (JBool True) = JBool True
   \<and> JBool True \<noteq> JBool False"
  by (simp add: convertTrueFalse_Profile_def)

text \<open>
  C8, as the code has it. In the label direction the conversion gives the "true" label
  for the boolean \<open>true\<close> and the "false" label for every other value: \<open>undefined\<close>,
  \<open>null\<close>, the string \<open>true\<close> and the number \<open>1\<close> among them. Its result is always
  one of the two labels, never \<open>undefined\<close>, and so is what the getters of the three
  boolean-backed fields return, whatever the store holds. When neither label is the
  empty string, neither the conversion nor one of these getters returns the empty string.
\<close>

theorem label_of_value:
  "convertTrueFalse_Data lt (JBool True) JUndefined = JStr (selectTrue lt)
   \<and> (v \<noteq> JBool True \<longrightarrow> convertTrueFalse_Data lt v JUndefined = JStr (selectFalse lt))
   \<and> convertTrueFalse_Data lt JUndefined JUndefined = JStr (selectFalse lt)
   \<and> convertTrueFalse_Data lt JNull JUndefined = JStr (selectFalse lt)
   \<and> convertTrueFalse_Data lt (JStr ''true'') JUndefined = JStr (selectFalse lt)
   \<and> convertTrueFalse_Data lt (JNum 1) JUndefined = JStr (selectFalse lt)
   \<and> convertTrueFalse_Data lt v JUndefined \<noteq> JUndefined
   \<and> (fst (useMedian_get lt n st) = JStr (selectTrue lt)
        \<or> fst (useMedian_get lt n st) = JStr (selectFalse lt))
   \<and> (fst (acceptanceAbsolute_get lt n st) = JStr (selectTrue lt)
        \<or> fst (acceptanceAbsolute_get lt n st) = JStr (selectFalse lt))
   \<and> (fst (correctionAllow_get lt n st) = JStr (selectTrue lt)
        \<or> fst (correctionAllow_get lt n st) = JStr (selectFalse lt))
   \<and> fst (useMedian_get lt n st) \<noteq> JUndefined
   \<and> fst (acceptanceAbsolute_get lt n st) \<noteq> JUndefined
   \<and> fst (correctionAllow_get lt n st) \<noteq> JUndefined
   \<and> (selectTrue lt \<noteq> [] \<and> selectFalse lt \<noteq> [] \<longrightarrow>
        convertTrueFalse_Data lt v JUndefined \<noteq> JStr []
        \<and> fst (useMedian_get lt n st) \<noteq> JStr []
        \<and> fst (acceptanceAbsolute_get lt n st) \<noteq> JStr []
        \<and> fst (correctionAllow_get lt n st) \<noteq> JStr [])"
  by (simp add: convertTrueFalse_defs strict_eq_JBool useMedian_get_def
      acceptanceAbsolute_get_def correctionAllow_get_def case_prod_beta)

theorem label_of_value_witness:
  "selectTrue \<lparr>selectTrue = ''Yes'', selectFalse = ''No''\<rparr> \<noteq> [] \<and> selectFalse \<lparr>selectTrue = ''Yes'', selectFalse = ''No''\<rparr> \<noteq> []
   \<and> convertTrueFalse_Data \<lparr>selectTrue = ''Yes'', selectFalse = ''No''\<rparr> JUndefined JUndefined = JStr ''No''
   \<and> convertTrueFalse_Data \<lparr>selectTrue = ''Yes'', selectFalse = ''No''\<rparr> JUndefined JUndefined \<noteq> JStr []
   \<and> fst (useMedian_get \<lparr>selectTrue = ''Yes'', selectFalse = ''No''\<rparr> ''profileA'' Map.empty) \<noteq> JStr []"
  using label_of_value [where lt = "\<lparr>selectTrue = ''Yes'', selectFalse = ''No''\<rparr>" and v = JUndefined
      and n = "''profileA''" and st = Map.empty]
  by simp

text \<open>
  C8 as stated, with the boolean-backed getters never showing a blank, fails when the
  "false" label is the empty string: the conversion of \<open>undefined\<close> is then the empty
  string, and on the empty store the getter of \<open>useMedian\<close> returns it.
\<close>

theorem empty_false_label_shows_blank:
  "convertTrueFalse_Data \<lparr>selectTrue = ''Yes'', selectFalse = []\<rparr> JUndefined JUndefined = JStr []
   \<and> fst (useMedian_get \<lparr>selectTrue = ''Yes'', selectFalse = []\<rparr> ''profileA'' Map.empty) = JStr []"
  by (simp add: convertTrueFalse_Data_def useMedian_get_def getSettingsValue_def)

text \<open>
  C9. The three copies of \<open>convertTrueFalse\<close> compute the same function: for every
  value, every \<open>toBool\<close> argument and every pair of labels they return the same result.
\<close>

theorem convertTrueFalse_copies_agree:
  "convertTrueFalse_Data lt v tb = convertTrueFalse_Profile lt v tb
   \<and> convertTrueFalse_Profile lt v tb = convertTrueFalse_Advanced lt v tb"
  by (simp add: convertTrueFalse_Data_def convertTrueFalse_Profile_def
      convertTrueFalse_Advanced_def)

section \<open>Properties of the settings accessors\<close>

text \<open>
  C5. A value written at a group and key is the value read there next: for the store's
  own two operations, and for the getter and setter of every field that is bound to the
  store without conversion.
\<close>

theorem set_then_get:
  "fst (getSettingsValue g k (setSettingsValue g k v st)) = v
   \<and> fst (dataTransformation_get n (dataTransformation_set n v st)) = v
   \<and> fst (toleranceLimit_get n (toleranceLimit_set n v st)) = v
   \<and> fst (acceptanceLimit_get n (acceptanceLimit_set n v st)) = v
   \<and> fst (correctionForcedValue_get n (correctionForcedValue_set n v st)) = v
   \<and> fst (correctionRoundTo_get n (correctionRoundTo_set n v st)) = v
   \<and> fst (correctionThreshold_get n (correctionThreshold_set n v st)) = v
   \<and> fst (rollingData_get n (rollingData_set n v st)) = v
   \<and> fst (rollingLimit_get n (rollingLimit_set n v st)) = v
   \<and> fst (significantFigure_get n (significantFigure_set n v st)) = v
   \<and> fst (modelToTest_get n (modelToTest_set n v st)) = v"
  by (simp add: getter_defs setter_defs getSettingsValue_fst setSettingsValue_def)

text \<open>
  C7. Reading a setting leaves the store as it was: for the store's getter at every
  group and key, for the getters of \<open>acceptanceLimit\<close> and \<open>correctionForcedValue\<close>,
  and for the getter of every field of the three components.
\<close>

theorem get_leaves_store:
  "snd (getSettingsValue g k st) = st
   \<and> snd (acceptanceLimit_get n st) = st
   \<and> snd (correctionForcedValue_get n st) = st
   \<and> snd (field_get lt n f st) = st"
  by (simp add: getSettingsValue_snd acceptanceLimit_get_def correctionForcedValue_get_def
      field_get_snd)

text \<open>
  C3. The scenario of group \<open>profileA\<close> and key \<open>acceptance_absolute\<close> with the labels
  \<open>Yes\<close> and \<open>No\<close>: after \<open>true\<close> is written there, whatever the store held before,
  reading the pair returns \<open>true\<close> and the getter of \<open>acceptanceAbsolute\<close> returns \<open>Yes\<close>.
\<close>

theorem acceptance_absolute_scenario:
  "fst (getSettingsValue ''profileA'' ''acceptance_absolute''
         (setSettingsValue ''profileA'' ''acceptance_absolute'' (JBool True) st)) = JBool True
   \<and> fst (acceptanceAbsolute_get \<lparr>selectTrue = ''Yes'', selectFalse = ''No''\<rparr> ''profileA''
         (setSettingsValue ''profileA'' ''acceptance_absolute'' (JBool True) st)) = JStr ''Yes''"
  by (simp add: getSettingsValue_def setSettingsValue_def acceptanceAbsolute_get_def
      convertTrueFalse_Profile_def)

text \<open>
  C4, as the code has it. Reading a pair that was never set returns \<open>undefined\<close>, and no
  read has a failing branch. The getter of a field bound without conversion returns that
  \<open>undefined\<close>, which the form shows as blank; the getter of a boolean-backed field
  passes it through the label conversion and returns the "false" label.
\<close>

theorem never_set_reads:
  "(st (g, k) = None \<longrightarrow> fst (getSettingsValue g k st) = JUndefined)
   \<and> (st (n, setting_of f) = None \<and> \<not> boolean_backed f
        \<longrightarrow> fst (field_get lt n f st) = JUndefined)
   \<and> (st (n, setting_of f) = None \<and> boolean_backed f
        \<longrightarrow> fst (field_get lt n f st) = JStr (selectFalse lt))"
  by (simp add: field_get_fst getSettingsValue_fst convertTrueFalse_Data_def)

theorem never_set_reads_witness:
  "fst (getSettingsValue ''profileA'' ''use_median'' Map.empty) = JUndefined
   \<and> fst (field_get \<lparr>selectTrue = ''Yes'', selectFalse = ''No''\<rparr> ''profileA''
         DataTransformation Map.empty) = JUndefined
   \<and> fst (field_get \<lparr>selectTrue = ''Yes'', selectFalse = ''No''\<rparr> ''profileA''
         AcceptanceAbsolute Map.empty) = JStr ''No''"
  using never_set_reads [of Map.empty "''profileA''" "''use_median''" "''profileA''"
      DataTransformation "\<lparr>selectTrue = ''Yes'', selectFalse = ''No''\<rparr>"]
    never_set_reads [of Map.empty "''profileA''" "''use_median''" "''profileA''"
      AcceptanceAbsolute "\<lparr>selectTrue = ''Yes'', selectFalse = ''No''\<rparr>"]
  by simp

text \<open>
  C4 as stated, with every getter showing a never-set setting as blank, fails for the
  boolean-backed fields: on the empty store, with the labels \<open>Yes\<close> and \<open>No\<close>, the
  store reads \<open>use_median\<close> as \<open>undefined\<close> and the getter of \<open>useMedian\<close> returns the
  label \<open>No\<close>.
\<close>

theorem never_set_boolean_getter_shows_label:
  "fst (getSettingsValue ''profileA'' ''use_median'' Map.empty) = JUndefined
   \<and> fst (useMedian_get \<lparr>selectTrue = ''Yes'', selectFalse = ''No''\<rparr> ''profileA'' Map.empty)
       = JStr ''No''
   \<and> JStr ''No'' \<noteq> JUndefined \<and> JStr ''No'' \<noteq> JStr []"
  by (simp add: getSettingsValue_def useMedian_get_def convertTrueFalse_Data_def)

text \<open>
  C10. The setter of each boolean-backed field stores the boolean result of comparing
  the incoming value with the "true" label, never the label. No setter of another field
  writes to one of the three boolean-backed settings, so after any sequence of writes
  made through the form, an entry of \<open>use_median\<close>, \<open>acceptance_absolute\<close> or
  \<open>correction_allow\<close>, in any group, is as it was before the sequence or holds a
  boolean; one that was unset or a boolean before is unset or a boolean after.
\<close>

theorem boolean_settings_hold_booleans:
  assumes "k \<in> set boolean_settings"
  shows "useMedian_set lt n v st (n, ''use_median'')
           = Some (JBool (strict_eq v (JStr (selectTrue lt))))
       \<and> acceptanceAbsolute_set lt n v st (n, ''acceptance_absolute'')
           = Some (JBool (strict_eq v (JStr (selectTrue lt))))
       \<and> correctionAllow_set lt n v st (n, ''correction_allow'')
           = Some (JBool (strict_eq v (JStr (selectTrue lt))))
       \<and> (field_sets es st (g, k) = st (g, k) \<or> holds_bool (field_sets es st (g, k)))
       \<and> (st (g, k) = None \<or> holds_bool (st (g, k))
            \<longrightarrow> field_sets es st (g, k) = None \<or> holds_bool (field_sets es st (g, k)))"
proof -
  have written:
    "useMedian_set lt n v st (n, ''use_median'')
       = Some (JBool (strict_eq v (JStr (selectTrue lt))))"
    "acceptanceAbsolute_set lt n v st (n, ''acceptance_absolute'')
       = Some (JBool (strict_eq v (JStr (selectTrue lt))))"
    "correctionAllow_set lt n v st (n, ''correction_allow'')
       = Some (JBool (strict_eq v (JStr (selectTrue lt))))"
    by (simp_all add: useMedian_set_def acceptanceAbsolute_set_def correctionAllow_set_def
        convertTrueFalse_defs setSettingsValue_def)
  have kept: "field_sets es s (g, k) = s (g, k) \<or> holds_bool (field_sets es s (g, k))" for s
  proof (induction es arbitrary: s)
    case Nil
    show ?case by simp
  next
    case (Cons e es)
    obtain lt' n' f' v' where e: "e = (lt', n', f', v')"
      by (cases e) auto
    from Cons.IH [of "field_set lt' n' f' v' s"]
      field_set_entry [OF assms, of lt' n' f' v' s g]
    show ?case unfolding e by auto
  qed
  from kept [of st] have "st (g, k) = None \<or> holds_bool (st (g, k))
      \<longrightarrow> field_sets es st (g, k) = None \<or> holds_bool (field_sets es st (g, k))"
    by auto
  with written kept [of st] show ?thesis by simp
qed

theorem boolean_settings_hold_booleans_witness:
  "''use_median'' \<in> set boolean_settings
   \<and> field_sets
       [(\<lparr>selectTrue = ''Yes'', selectFalse = ''No''\<rparr>, ''profileA'', UseMedian, JStr ''Yes''),
        (\<lparr>selectTrue = ''Yes'', selectFalse = ''No''\<rparr>, ''profileA'', DataTransformation, JStr ''log10''),
        (\<lparr>selectTrue = ''Yes'', selectFalse = ''No''\<rparr>, ''profileA'', UseMedian, JStr ''maybe'')]
       Map.empty (''profileA'', ''use_median'') = Some (JBool False)
   \<and> holds_bool (field_sets
       [(\<lparr>selectTrue = ''Yes'', selectFalse = ''No''\<rparr>, ''profileA'', UseMedian, JStr ''Yes''),
        (\<lparr>selectTrue = ''Yes'', selectFalse = ''No''\<rparr>, ''profileA'', DataTransformation, JStr ''log10''),
        (\<lparr>selectTrue = ''Yes'', selectFalse = ''No''\<rparr>, ''profileA'', UseMedian, JStr ''maybe'')]
       Map.empty (''profileA'', ''use_median''))"
proof -
  have k: "''use_median'' \<in> set boolean_settings"
    by (simp add: boolean_settings_def)
  have ev: "field_sets
       [(\<lparr>selectTrue = ''Yes'', selectFalse = ''No''\<rparr>, ''profileA'', UseMedian, JStr ''Yes''),
        (\<lparr>selectTrue = ''Yes'', selectFalse = ''No''\<rparr>, ''profileA'', DataTransformation, JStr ''log10''),
        (\<lparr>selectTrue = ''Yes'', selectFalse = ''No''\<rparr>, ''profileA'', UseMedian, JStr ''maybe'')]
       Map.empty (''profileA'', ''use_median'') = Some (JBool False)"
    by (simp add: field_set_eq setSettingsValue_def)
  from boolean_settings_hold_booleans [OF k,
      of "\<lparr>selectTrue = ''Yes'', selectFalse = ''No''\<rparr>" "''profileA''" "JStr ''Yes''" Map.empty
      "[(\<lparr>selectTrue = ''Yes'', selectFalse = ''No''\<rparr>, ''profileA'', UseMedian, JStr ''Yes''),
        (\<lparr>selectTrue = ''Yes'', selectFalse = ''No''\<rparr>, ''profileA'', DataTransformation, JStr ''log10''),
        (\<lparr>selectTrue = ''Yes'', selectFalse = ''No''\<rparr>, ''profileA'', UseMedian, JStr ''maybe'')]"
      "''profileA''"]
  have "holds_bool (field_sets
       [(\<lparr>selectTrue = ''Yes'', selectFalse = ''No''\<rparr>, ''profileA'', UseMedian, JStr ''Yes''),
        (\<lparr>selectTrue = ''Yes'', selectFalse = ''No''\<rparr>, ''profileA'', DataTransformation, JStr ''log10''),
        (\<lparr>selectTrue = ''Yes'', selectFalse = ''No''\<rparr>, ''profileA'', UseMedian, JStr ''maybe'')]
       Map.empty (''profileA'', ''use_median''))"
    using ev by simp
  with k ev show ?thesis by simp
qed

end
